theory Spec2Isabelle
  imports Main "HOL-Library.Word" "HOL-Library.Multiset"
begin

section \<open>BBP Pairings: the tournament data model (src/tournament/tournament.h)\<close>

subsection \<open>Build limits and integer types\<close>

text \<open>
  The header fixes three build limits: \<^verbatim>\<open>MAX_PLAYERS 9999\<close>, \<^verbatim>\<open>MAX_POINTS 1998\<close> and
  \<^verbatim>\<open>MAX_RATING 9999\<close>.
\<close>

definition MAX_PLAYERS :: nat where "MAX_PLAYERS = 9999"
definition MAX_POINTS :: nat where "MAX_POINTS = 1998"
definition MAX_RATING :: nat where "MAX_RATING = 9999"

text \<open>
  Modelled from the spec: the alias template \<^verbatim>\<open>utility::uinttypes::uint_least_for_value<N>\<close>
  lives in \<^verbatim>\<open>utility/uinttypes.h\<close>, which is not among the sources. The specification
  describes it as the smallest fixed-width unsigned integer type that can represent the
  configured upper bound: 16 bits for 9999 and for 1998, 8 bits for 2. The header uses
  \<^verbatim>\<open>uint_least_for_value<2>\<close> as the underlying type of its enumerations, so the alias
  denotes a built-in unsigned integer type, whose arithmetic is modular.
\<close>

type_synonym player_index = "16 word"
type_synonym points = "16 word"
type_synonym rating = "16 word"

text \<open>
  \<^verbatim>\<open>round_index\<close> is the smaller of two \<^verbatim>\<open>size_type\<close>s (no \<^verbatim>\<open>MAX_ROUNDS\<close> is set); it is
  taken as 64 bits wide. No function of the header computes with it.
\<close>

type_synonym round_index = "64 word"

definition maxPlayers :: player_index where "maxPlayers = of_nat MAX_PLAYERS"
definition maxPoints :: points where "maxPoints = of_nat MAX_POINTS"

subsection \<open>Enumerations\<close>

datatype Color = COLOR_WHITE | COLOR_BLACK | COLOR_NONE

fun invert_Color :: "Color \<Rightarrow> Color" where
  "invert_Color c =
     (if c = COLOR_WHITE then COLOR_BLACK
      else if c = COLOR_BLACK then COLOR_WHITE
      else COLOR_NONE)"

datatype MatchScore = MATCH_SCORE_LOSS | MATCH_SCORE_DRAW | MATCH_SCORE_WIN

text \<open>
  The enumerators carry the values 0, 1, 2 in declaration order. \<^verbatim>\<open>invert\<close> on a
  \<^verbatim>\<open>MatchScore\<close> computes with these values: both operands of the subtraction are promoted
  to \<^verbatim>\<open>int\<close>, and the difference is cast back to the enumeration.
\<close>

fun MatchScore_to_int :: "MatchScore \<Rightarrow> int" where
  "MatchScore_to_int MATCH_SCORE_LOSS = 0"
| "MatchScore_to_int MATCH_SCORE_DRAW = 1"
| "MatchScore_to_int MATCH_SCORE_WIN = 2"

text \<open>
  The cast \<^verbatim>\<open>MatchScore(n)\<close>. For \<open>n\<close> outside 0..2 the C++ value is no enumerator; the
  result is \<open>None\<close> there.
\<close>

definition MatchScore_of_int :: "int \<Rightarrow> MatchScore option" where
  "MatchScore_of_int n =
     (if n = 0 then Some MATCH_SCORE_LOSS
      else if n = 1 then Some MATCH_SCORE_DRAW
      else if n = 2 then Some MATCH_SCORE_WIN
      else None)"

definition invert_MatchScore :: "MatchScore \<Rightarrow> MatchScore" where
  "invert_MatchScore ms =
     the (MatchScore_of_int (MatchScore_to_int MATCH_SCORE_WIN - MatchScore_to_int ms))"

subsection \<open>Match: the history of a single player on a single round\<close>

record Match =
  opponent :: player_index
  color :: Color
  matchScore :: MatchScore
  gameWasPlayed :: bool
  participatedInPairing :: bool

text \<open>The constructor taking only the player's own index.\<close>

definition Match_ctor1 :: "player_index \<Rightarrow> Match" where
  "Match_ctor1 playerIndex =
     \<lparr> opponent = playerIndex,
       color = COLOR_NONE,
       matchScore = MATCH_SCORE_LOSS,
       gameWasPlayed = False,
       participatedInPairing = False \<rparr>"

definition Match_ctor5 ::
  "player_index \<Rightarrow> Color \<Rightarrow> MatchScore \<Rightarrow> bool \<Rightarrow> bool \<Rightarrow> Match" where
  "Match_ctor5 opponent' color' matchScore' gameWasPlayed' participatedInPairing' =
     \<lparr> opponent = opponent',
       color = color',
       matchScore = matchScore',
       gameWasPlayed = gameWasPlayed',
       participatedInPairing = participatedInPairing' \<rparr>"

subsection \<open>Player\<close>

text \<open>
  The field \<^verbatim>\<open>id\<close> is called \<open>id_Player\<close> here, since \<open>id\<close> is the identity function of HOL.
\<close>

record Player =
  matches :: "Match list"
  accelerations :: "points list"
  forbiddenPairs :: "player_index set"
  id_Player :: player_index
  rankIndex :: player_index
  rating :: rating
  scoreWithoutAcceleration :: points
  acceleration :: points
  colorPreference :: Color
  absoluteColorPreference :: bool
  strongColorPreference :: bool
  isValid :: bool

text \<open>
  \<^verbatim>\<open>Player() = default\<close>: the containers start empty and the members with an initialiser
  take it (\<^verbatim>\<open>acceleration{ }\<close>, \<^verbatim>\<open>colorPreference = COLOR_NONE\<close>, the three flags
  \<^verbatim>\<open>{ }\<close>). The four members without an initialiser (\<^verbatim>\<open>id\<close>, \<^verbatim>\<open>rankIndex\<close>, \<^verbatim>\<open>rating\<close>,
  \<^verbatim>\<open>scoreWithoutAcceleration\<close>) keep whatever the storage holds; they are parameters.
\<close>

definition Player_default ::
  "player_index \<Rightarrow> player_index \<Rightarrow> rating \<Rightarrow> points \<Rightarrow> Player" where
  "Player_default id0 rankIndex0 rating0 score0 =
     \<lparr> matches = [],
       accelerations = [],
       forbiddenPairs = {},
       id_Player = id0,
       rankIndex = rankIndex0,
       rating = rating0,
       scoreWithoutAcceleration = score0,
       acceleration = 0,
       colorPreference = COLOR_NONE,
       absoluteColorPreference = False,
       strongColorPreference = False,
       isValid = False \<rparr>"

text \<open>
  The constructor with arguments. Members it does not name in its initialiser list take
  their default initialiser; \<^verbatim>\<open>accelerations\<close> starts empty.
\<close>

definition Player_ctor ::
  "player_index \<Rightarrow> points \<Rightarrow> rating \<Rightarrow> Match list \<Rightarrow> player_index set \<Rightarrow> Player" where
  "Player_ctor id' points' rating' matches' forbiddenPairs' =
     \<lparr> matches = matches',
       accelerations = [],
       forbiddenPairs = forbiddenPairs',
       id_Player = id',
       rankIndex = id',
       rating = rating',
       scoreWithoutAcceleration = points',
       acceleration = 0,
       colorPreference = COLOR_NONE,
       absoluteColorPreference = False,
       strongColorPreference = False,
       isValid = True \<rparr>"

text \<open>The call with the two defaulted arguments left out.\<close>

definition Player_ctor3 :: "player_index \<Rightarrow> points \<Rightarrow> rating \<Rightarrow> Player" where
  "Player_ctor3 id' points' rating' = Player_ctor id' points' rating' [] {}"


text \<open>
  \<^verbatim>\<open>scoreWithAcceleration\<close>: the operands are promoted to \<^verbatim>\<open>int\<close>, added there, and the
  sum is converted to the return type \<^verbatim>\<open>points\<close>, which keeps its low 16 bits.
\<close>

definition scoreWithAcceleration :: "Player \<Rightarrow> points" where
  "scoreWithAcceleration p =
     word_of_int (uint (scoreWithoutAcceleration p) + uint (acceleration p))"

subsection \<open>The rank comparator\<close>

text \<open>
  \<^verbatim>\<open>operator<\<close> on two-element tuples, as \<^verbatim>\<open>std::tie(a0, a1) < std::tie(b0, b1)\<close>
  evaluates it: lexicographic, using only \<open><\<close> of the components.
\<close>

definition tie_less :: "'a::ord \<times> 'b::ord \<Rightarrow> 'a \<times> 'b \<Rightarrow> bool" where
  "tie_less x y =
     (if fst x < fst y then True
      else if fst y < fst x then False
      else snd x < snd y)"

definition unacceleratedScoreRankCompare :: "Player \<Rightarrow> Player \<Rightarrow> bool" where
  "unacceleratedScoreRankCompare player0 player1 =
     tie_less (scoreWithoutAcceleration player0, rankIndex player1)
              (scoreWithoutAcceleration player1, rankIndex player0)"

subsection \<open>Tournament\<close>

record Tournament =
  players :: "Player list"
  playersByRank :: "player_index list"
  playedRounds :: round_index
  expectedRounds :: round_index
  pointsForWin :: points
  pointsForDraw :: points
  initialColor :: Color

text \<open>A tournament as its default member initialisers leave it.\<close>

definition Tournament_default :: Tournament where
  "Tournament_default =
     \<lparr> players = [],
       playersByRank = [],
       playedRounds = 0,
       expectedRounds = 0,
       pointsForWin = 10,
       pointsForDraw = 5,
       initialColor = COLOR_NONE \<rparr>"

definition getPoints :: "Tournament \<Rightarrow> MatchScore \<Rightarrow> points" where
  "getPoints t ms =
     (if ms = MATCH_SCORE_LOSS then 0
      else if ms = MATCH_SCORE_WIN then pointsForWin t
      else pointsForDraw t)"

section \<open>The operations of the tournament\<close>

text \<open>
  The header declares three operations on a tournament, \<^verbatim>\<open>forbidPairs\<close>, \<^verbatim>\<open>updateRanks\<close>
  and \<^verbatim>\<open>computePlayerData\<close>, and defines none of them: their bodies are not among the
  sources. This section models them from the specification.
\<close>

text \<open>
  Modelled from the spec: the failures of the missing operations. The specification (7)
  names three kinds of error, and (4.3) has a self-pair refused "as a caller error".
\<close>

datatype error =
  CapacityExceededError | DataIntegrityError | InvalidReferenceError | CallerError

subsection \<open>Rank Orderer\<close>

text \<open>
  Modelled from the spec: the ordering step of the missing \<^verbatim>\<open>Tournament::updateRanks\<close>.
  The specification (4.2) orders by descending unaccelerated score, ties broken by
  ascending previous rank index: player A ranks above player B iff A's score is larger, or
  the scores are equal and A's rank index is smaller, which is
  \<open>unacceleratedScoreRankCompare B A\<close>. An insertion sort produces that order: a player
  goes behind every player that ranks above it.
\<close>

fun insert_by_rank :: "Player \<Rightarrow> Player list \<Rightarrow> Player list" where
  "insert_by_rank p [] = [p]"
| "insert_by_rank p (q # qs) =
     (if unacceleratedScoreRankCompare p q then q # insert_by_rank p qs else p # q # qs)"

fun sort_by_rank :: "Player list \<Rightarrow> Player list" where
  "sort_by_rank [] = []"
| "sort_by_rank (p # ps) = insert_by_rank p (sort_by_rank ps)"

text \<open>
  Modelled from the spec: the rank index a player receives in the missing
  \<^verbatim>\<open>Tournament::updateRanks\<close>, "its new 0-based position" in the sequence (4.2).
\<close>

fun position :: "'a \<Rightarrow> 'a list \<Rightarrow> nat" where
  "position x [] = 0"
| "position x (y # ys) = (if x = y then 0 else Suc (position x ys))"

definition reassignRank :: "player_index list \<Rightarrow> Player \<Rightarrow> Player" where
  "reassignRank ranked p =
     (if isValid p then p\<lparr>rankIndex := of_nat (position (id_Player p) ranked)\<rparr> else p)"

text \<open>
  Modelled from the spec: the body of \<^verbatim>\<open>Tournament::updateRanks\<close> is missing. The
  specification (4.2): produce \<^verbatim>\<open>playersByRank\<close>, a sequence of all valid player ids in
  the order above; invalid players are left out of it; after ordering, \<^verbatim>\<open>rankIndex\<close> is
  reassigned to each player as its new position. The specification gives it no failure.
\<close>

definition updateRanks :: "Tournament \<Rightarrow> Tournament" where
  "updateRanks t =
     (let ranked = map id_Player (sort_by_rank (filter isValid (players t)))
      in t\<lparr>players := map (reassignRank ranked) (players t), playersByRank := ranked\<rparr>)"

subsection \<open>Score and Colour-Preference Resolver\<close>

text \<open>
  Modelled from the spec: what the missing \<^verbatim>\<open>Tournament::computePlayerData\<close> recomputes
  for a player. The specification (4.1): the unaccelerated score, the acceleration for the
  round about to be paired, and the colour-preference triple.
\<close>

record PlayerData =
  newScoreWithoutAcceleration :: points
  newAcceleration :: points
  newColorPreference :: Color
  newAbsoluteColorPreference :: bool
  newStrongColorPreference :: bool

definition setPlayerData :: "PlayerData \<Rightarrow> Player \<Rightarrow> Player" where
  "setPlayerData d p =
     p\<lparr> scoreWithoutAcceleration := newScoreWithoutAcceleration d,
        acceleration := newAcceleration d,
        colorPreference := newColorPreference d,
        absoluteColorPreference := newAbsoluteColorPreference d,
        strongColorPreference := newStrongColorPreference d \<rparr>"

text \<open>
  Modelled from the spec: the body of \<^verbatim>\<open>Tournament::computePlayerData\<close> is missing. The
  specification (4.1, 3): for a player, from its match history, the tournament's point
  values and the acceleration schedule, recompute the five values above, or signal an
  error on an inconsistent history; the resolver changes no other field, in particular no
  forbidden-pair set. The specification calls its own rules for the five values a
  reconstruction (9), so they are the parameter \<open>resolve\<close> here: the operation writes the
  values \<open>resolve\<close> gives into every valid player and stops at the first error.
\<close>

fun resolveAll :: "(Player \<Rightarrow> error + PlayerData) \<Rightarrow> Player list \<Rightarrow> error + Player list" where
  "resolveAll r [] = Inr []"
| "resolveAll r (p # ps) =
     (if isValid p then
        (case r p of
           Inl e \<Rightarrow> Inl e
         | Inr d \<Rightarrow>
             (case resolveAll r ps of
                Inl e \<Rightarrow> Inl e
              | Inr ps' \<Rightarrow> Inr (setPlayerData d p # ps')))
      else
        (case resolveAll r ps of
           Inl e \<Rightarrow> Inl e
         | Inr ps' \<Rightarrow> Inr (p # ps')))"

text \<open>
  Modelled from the spec: \<^verbatim>\<open>Tournament::computePlayerData\<close> itself, the resolver run over
  the players of the tournament; an error leaves no new tournament.
\<close>

definition computePlayerData ::
  "(Tournament \<Rightarrow> Player \<Rightarrow> error + PlayerData) \<Rightarrow> Tournament \<Rightarrow> error + Tournament" where
  "computePlayerData resolve t =
     (case resolveAll (resolve t) (players t) of
        Inl e \<Rightarrow> Inl e
      | Inr ps \<Rightarrow> Inr (t\<lparr>players := ps\<rparr>))"

subsection \<open>Forbidden-Pair Builder\<close>

text \<open>
  Modelled from the spec: the checks and the insertion of the missing
  \<^verbatim>\<open>Tournament::forbidPairs\<close>. The specification (4.3): an id must correspond to a valid
  player; each id of a pair is inserted into the other's forbidden set.
\<close>

definition validId :: "Player list \<Rightarrow> player_index \<Rightarrow> bool" where
  "validId ps i = list_ex (\<lambda>p. isValid p \<and> id_Player p = i) ps"

definition forbid :: "player_index \<Rightarrow> player_index \<Rightarrow> Player \<Rightarrow> Player" where
  "forbid a b p =
     (if isValid p \<and> id_Player p = a then p\<lparr>forbiddenPairs := insert b (forbiddenPairs p)\<rparr>
      else if isValid p \<and> id_Player p = b then p\<lparr>forbiddenPairs := insert a (forbiddenPairs p)\<rparr>
      else p)"

text \<open>
  Modelled from the spec: the body of \<^verbatim>\<open>Tournament::forbidPairs\<close> is missing. The
  specification (4.3, 7): given a collection of id pairs, insert each id into the other's
  forbidden set; signal \<^verbatim>\<open>InvalidReferenceError\<close> if either id does not correspond to a
  valid player; reject a self-pair as a caller error; on an error nothing of the call is
  committed. (The declaration in the header takes a \<^verbatim>\<open>std::deque<player_index>\<close>; the
  pairs follow the specification.)
\<close>

fun forbidAll :: "(player_index \<times> player_index) list \<Rightarrow> Player list \<Rightarrow> error + Player list" where
  "forbidAll [] ps = Inr ps"
| "forbidAll ((a, b) # prs) ps =
     (if \<not> validId ps a \<or> \<not> validId ps b then Inl InvalidReferenceError
      else if a = b then Inl CallerError
      else forbidAll prs (map (forbid a b) ps))"

text \<open>
  Modelled from the spec: \<^verbatim>\<open>Tournament::forbidPairs\<close> itself, the builder run on the
  players of the tournament; an error leaves no new tournament.
\<close>

definition forbidPairs ::
  "Tournament \<Rightarrow> (player_index \<times> player_index) list \<Rightarrow> error + Tournament" where
  "forbidPairs t prs =
     (case forbidAll prs (players t) of
        Inl e \<Rightarrow> Inl e
      | Inr ps \<Rightarrow> Inr (t\<lparr>players := ps\<rparr>))"

subsection \<open>The invariant of the rank sequence\<close>

definition validIds :: "Tournament \<Rightarrow> player_index list" where
  "validIds t = map id_Player (filter isValid (players t))"

text \<open>\<^verbatim>\<open>playersByRank\<close> is a permutation of the ids of the valid players.\<close>

definition ranksArePermutation :: "Tournament \<Rightarrow> bool" where
  "ranksArePermutation t \<longleftrightarrow> mset (playersByRank t) = mset (validIds t)"

text \<open>
  A small field: players 0 and 2 hold a record, id 1 is a hole; and the values a resolver
  might give a player.
\<close>

definition exampleField :: Tournament where
  "exampleField =
     Tournament_default
       \<lparr> players := [Player_ctor3 0 10 1500, Player_default 1 1 0 0, Player_ctor3 2 15 1400],
         playersByRank := [0, 2] \<rparr>"

definition exampleData :: PlayerData where
  "exampleData =
     \<lparr> newScoreWithoutAcceleration = 15,
       newAcceleration = 0,
       newColorPreference = COLOR_WHITE,
       newAbsoluteColorPreference = False,
       newStrongColorPreference = True \<rparr>"

text \<open>A tournament whose only record is a hole.\<close>

definition exampleHoles :: Tournament where
  "exampleHoles = Tournament_default\<lparr>players := [Player_default 0 0 0 0]\<rparr>"

section \<open>Properties\<close>

subsection \<open>Enumerations\<close>

lemma MatchScore_of_to_int: "MatchScore_of_int (MatchScore_to_int m) = Some m"
  by (cases m) (simp_all add: MatchScore_of_int_def)

lemma invert_MatchScore_in_range:
  "MatchScore_to_int MATCH_SCORE_WIN - MatchScore_to_int m \<in> {0, 1, 2}"
  by (cases m) simp_all

lemma invert_MatchScore_simps:
  "invert_MatchScore MATCH_SCORE_WIN = MATCH_SCORE_LOSS"
  "invert_MatchScore MATCH_SCORE_DRAW = MATCH_SCORE_DRAW"
  "invert_MatchScore MATCH_SCORE_LOSS = MATCH_SCORE_WIN"
  by (simp_all add: invert_MatchScore_def MatchScore_of_int_def)

text \<open>
  C10. \<^verbatim>\<open>invert\<close> on colours swaps white and black and keeps \<^verbatim>\<open>COLOR_NONE\<close>; \<^verbatim>\<open>invert\<close>
  on match scores swaps win and loss and keeps the draw; applying either twice gives the
  value back, for every enumerator.
\<close>

theorem invert_involution:
  "invert_Color COLOR_WHITE = COLOR_BLACK \<and>
   invert_Color COLOR_BLACK = COLOR_WHITE \<and>
   invert_Color COLOR_NONE = COLOR_NONE \<and>
   invert_MatchScore MATCH_SCORE_WIN = MATCH_SCORE_LOSS \<and>
   invert_MatchScore MATCH_SCORE_LOSS = MATCH_SCORE_WIN \<and>
   invert_MatchScore MATCH_SCORE_DRAW = MATCH_SCORE_DRAW \<and>
   (\<forall>c. invert_Color (invert_Color c) = c) \<and>
   (\<forall>m. invert_MatchScore (invert_MatchScore m) = m)"
proof -
  have col: "invert_Color (invert_Color c) = c" for c
    by (cases c) simp_all
  have ms: "invert_MatchScore (invert_MatchScore m) = m" for m
    by (cases m) (simp_all add: invert_MatchScore_simps)
  show ?thesis
    using col ms by (simp add: invert_MatchScore_simps)
qed

subsection \<open>Match\<close>

text \<open>
  C6. For every player index \<open>p\<close>, the one-argument constructor gives a match with no real
  opponent: the opponent is \<open>p\<close> itself, the colour is \<^verbatim>\<open>COLOR_NONE\<close>, no game was played
  and the player did not take part in the pairing.
\<close>

theorem Match_ctor1_no_opponent:
  "opponent (Match_ctor1 p) = p \<and>
   color (Match_ctor1 p) = COLOR_NONE \<and>
   gameWasPlayed (Match_ctor1 p) = False \<and>
   participatedInPairing (Match_ctor1 p) = False"
  by (simp add: Match_ctor1_def)

subsection \<open>Points for a result\<close>

text \<open>
  C2. Whatever point values the tournament is configured with, \<^verbatim>\<open>getPoints\<close> gives
  \<^verbatim>\<open>pointsForWin\<close> for a win, \<^verbatim>\<open>pointsForDraw\<close> for a draw and 0 for a loss.
\<close>

theorem getPoints_cases:
  "getPoints t MATCH_SCORE_WIN = pointsForWin t \<and>
   getPoints t MATCH_SCORE_DRAW = pointsForDraw t \<and>
   getPoints t MATCH_SCORE_LOSS = 0"
  by (simp add: getPoints_def)

subsection \<open>The rank comparator\<close>

lemma unacceleratedScoreRankCompare_iff:
  "unacceleratedScoreRankCompare p q \<longleftrightarrow>
     scoreWithoutAcceleration p < scoreWithoutAcceleration q \<or>
     (scoreWithoutAcceleration p = scoreWithoutAcceleration q \<and> rankIndex q < rankIndex p)"
  by (auto simp: unacceleratedScoreRankCompare_def tie_less_def)

text \<open>
  C1. Player \<open>A\<close> is placed above player \<open>B\<close>, that is
  \<^verbatim>\<open>unacceleratedScoreRankCompare(B, A)\<close> is true, exactly when \<open>A\<close> has the larger
  unaccelerated score, or the scores are equal and \<open>A\<close> has the smaller rank index.
\<close>

theorem rank_compare_above_iff:
  "unacceleratedScoreRankCompare B A \<longleftrightarrow>
     scoreWithoutAcceleration A > scoreWithoutAcceleration B \<or>
     (scoreWithoutAcceleration A = scoreWithoutAcceleration B \<and> rankIndex A < rankIndex B)"
  by (auto simp: unacceleratedScoreRankCompare_def tie_less_def)

text \<open>
  Two players with the same score of 10 and rank indices 3 and 7: the one with rank index 3
  is above the other, and not the other way round.
\<close>

theorem rank_compare_above_iff_witness:
  "unacceleratedScoreRankCompare
     ((Player_ctor3 1 10 0)\<lparr>rankIndex := 7\<rparr>) ((Player_ctor3 0 10 0)\<lparr>rankIndex := 3\<rparr>) \<and>
   \<not> unacceleratedScoreRankCompare
     ((Player_ctor3 0 10 0)\<lparr>rankIndex := 3\<rparr>) ((Player_ctor3 1 10 0)\<lparr>rankIndex := 7\<rparr>)"
proof -
  let ?A = "(Player_ctor3 0 10 0)\<lparr>rankIndex := 3\<rparr>"
  let ?B = "(Player_ctor3 1 10 0)\<lparr>rankIndex := 7\<rparr>"
  have s: "scoreWithoutAcceleration ?A = 10" "scoreWithoutAcceleration ?B = 10"
    and r: "rankIndex ?A = 3" "rankIndex ?B = 7"
    by (simp_all add: Player_ctor3_def Player_ctor_def)
  show ?thesis
    using rank_compare_above_iff [of ?B ?A] rank_compare_above_iff [of ?A ?B]
    by (simp only: s r) simp
qed

text \<open>
  C3. The comparator is a strict order: no player is before itself, two players are never
  each before the other, and it is transitive. On players whose rank indices differ it is
  total, and exactly one of the two directions holds.
\<close>

theorem rank_compare_strict_total_order:
  "\<not> unacceleratedScoreRankCompare a a \<and>
   (unacceleratedScoreRankCompare a b \<longrightarrow> \<not> unacceleratedScoreRankCompare b a) \<and>
   (unacceleratedScoreRankCompare a b \<and> unacceleratedScoreRankCompare b c
      \<longrightarrow> unacceleratedScoreRankCompare a c) \<and>
   (rankIndex a \<noteq> rankIndex b
      \<longrightarrow> unacceleratedScoreRankCompare a b \<or> unacceleratedScoreRankCompare b a) \<and>
   (rankIndex a \<noteq> rankIndex b
      \<longrightarrow> unacceleratedScoreRankCompare a b \<noteq> unacceleratedScoreRankCompare b a)"
proof -
  have irrefl: "\<not> unacceleratedScoreRankCompare a a"
    by (simp add: unacceleratedScoreRankCompare_iff)
  have asym: "unacceleratedScoreRankCompare a b \<longrightarrow> \<not> unacceleratedScoreRankCompare b a"
    by (auto simp: unacceleratedScoreRankCompare_iff)
  have trans: "unacceleratedScoreRankCompare a b \<and> unacceleratedScoreRankCompare b c
      \<longrightarrow> unacceleratedScoreRankCompare a c"
    by (auto simp: unacceleratedScoreRankCompare_iff)
  have total: "rankIndex a \<noteq> rankIndex b
      \<longrightarrow> unacceleratedScoreRankCompare a b \<or> unacceleratedScoreRankCompare b a"
    by (auto simp: unacceleratedScoreRankCompare_iff)
  from irrefl asym trans total show ?thesis
    by blast
qed

text \<open>
  The comparator at three players: scores 5, 10 and 10, the last two with rank indices 7
  and 3.
\<close>

theorem rank_compare_strict_total_order_witness:
  "unacceleratedScoreRankCompare (Player_ctor3 9 5 0) (Player_ctor3 7 10 0) \<and>
   unacceleratedScoreRankCompare (Player_ctor3 7 10 0) (Player_ctor3 3 10 0) \<and>
   rankIndex (Player_ctor3 9 5 0) \<noteq> rankIndex (Player_ctor3 7 10 0) \<and>
   unacceleratedScoreRankCompare (Player_ctor3 9 5 0) (Player_ctor3 3 10 0) \<and>
   \<not> unacceleratedScoreRankCompare (Player_ctor3 7 10 0) (Player_ctor3 9 5 0) \<and>
   \<not> unacceleratedScoreRankCompare (Player_ctor3 9 5 0) (Player_ctor3 9 5 0)"
proof -
  let ?a = "Player_ctor3 9 5 0" and ?b = "Player_ctor3 7 10 0" and ?c = "Player_ctor3 3 10 0"
  have ab: "unacceleratedScoreRankCompare ?a ?b"
    by (simp add: unacceleratedScoreRankCompare_def tie_less_def Player_ctor3_def Player_ctor_def)
  have bc: "unacceleratedScoreRankCompare ?b ?c"
    by (simp add: unacceleratedScoreRankCompare_def tie_less_def Player_ctor3_def Player_ctor_def)
  have ne: "rankIndex ?a \<noteq> rankIndex ?b"
    by (simp add: Player_ctor3_def Player_ctor_def)
  from rank_compare_strict_total_order [of ?a ?b ?c] ab bc ne show ?thesis
    by blast
qed

subsection \<open>Player\<close>

lemma unat_scoreWithAcceleration:
  "unat (scoreWithAcceleration p) =
     (unat (scoreWithoutAcceleration p) + unat (acceleration p)) mod 2 ^ 16"
proof -
  have "scoreWithAcceleration p = scoreWithoutAcceleration p + acceleration p"
    by (simp add: scoreWithAcceleration_def)
  then show ?thesis
    by (simp add: unat_word_ariths)
qed

text \<open>
  C4, as the code has it. \<^verbatim>\<open>scoreWithAcceleration\<close> returns the sum of
  \<^verbatim>\<open>scoreWithoutAcceleration\<close> and \<^verbatim>\<open>acceleration\<close> reduced modulo \<open>2 ^ 16\<close>. That is the
  sum itself whenever the sum is below \<open>2 ^ 16\<close>, in particular whenever both fields are
  at most \<^verbatim>\<open>MAX_POINTS\<close>. The value is computed from these two fields alone: two players
  that agree on them have the same accelerated score.
\<close>

theorem scoreWithAcceleration_sum_mod:
  "unat (scoreWithAcceleration p) =
     (unat (scoreWithoutAcceleration p) + unat (acceleration p)) mod 2 ^ 16 \<and>
   (unat (scoreWithoutAcceleration p) + unat (acceleration p) < 2 ^ 16 \<longrightarrow>
      unat (scoreWithAcceleration p) =
        unat (scoreWithoutAcceleration p) + unat (acceleration p)) \<and>
   (unat (scoreWithoutAcceleration p) \<le> MAX_POINTS \<and> unat (acceleration p) \<le> MAX_POINTS \<longrightarrow>
      unat (scoreWithAcceleration p) =
        unat (scoreWithoutAcceleration p) + unat (acceleration p)) \<and>
   (scoreWithoutAcceleration q = scoreWithoutAcceleration p \<and> acceleration q = acceleration p
      \<longrightarrow> scoreWithAcceleration q = scoreWithAcceleration p)"
proof -
  let ?s = "unat (scoreWithoutAcceleration p)" and ?a = "unat (acceleration p)"
  have m: "unat (scoreWithAcceleration p) = (?s + ?a) mod 2 ^ 16"
    by (rule unat_scoreWithAcceleration)
  have fits: "?s + ?a < 2 ^ 16 \<longrightarrow> unat (scoreWithAcceleration p) = ?s + ?a"
    using m by simp
  have bounded: "?s \<le> MAX_POINTS \<and> ?a \<le> MAX_POINTS \<longrightarrow>
      unat (scoreWithAcceleration p) = ?s + ?a"
    using m by (simp add: MAX_POINTS_def)
  have derived: "scoreWithoutAcceleration q = scoreWithoutAcceleration p \<and>
      acceleration q = acceleration p \<longrightarrow> scoreWithAcceleration q = scoreWithAcceleration p"
    by (simp add: scoreWithAcceleration_def)
  from m fits bounded derived show ?thesis
    by blast
qed

text \<open>A player with 25 tenths and an acceleration of 10 tenths, and one that differs in its id.\<close>

theorem scoreWithAcceleration_sum_mod_witness:
  "unat (scoreWithoutAcceleration ((Player_ctor3 0 25 0)\<lparr>acceleration := 10\<rparr>))
     + unat (acceleration ((Player_ctor3 0 25 0)\<lparr>acceleration := 10\<rparr>)) < 2 ^ 16 \<and>
   unat (scoreWithoutAcceleration ((Player_ctor3 0 25 0)\<lparr>acceleration := 10\<rparr>)) \<le> MAX_POINTS \<and>
   unat (acceleration ((Player_ctor3 0 25 0)\<lparr>acceleration := 10\<rparr>)) \<le> MAX_POINTS \<and>
   scoreWithoutAcceleration ((Player_ctor3 4 25 0)\<lparr>acceleration := 10\<rparr>) =
     scoreWithoutAcceleration ((Player_ctor3 0 25 0)\<lparr>acceleration := 10\<rparr>) \<and>
   acceleration ((Player_ctor3 4 25 0)\<lparr>acceleration := 10\<rparr>) =
     acceleration ((Player_ctor3 0 25 0)\<lparr>acceleration := 10\<rparr>) \<and>
   unat (scoreWithAcceleration ((Player_ctor3 0 25 0)\<lparr>acceleration := 10\<rparr>)) = 35 \<and>
   scoreWithAcceleration ((Player_ctor3 4 25 0)\<lparr>acceleration := 10\<rparr>) =
     scoreWithAcceleration ((Player_ctor3 0 25 0)\<lparr>acceleration := 10\<rparr>)"
proof -
  let ?p = "(Player_ctor3 0 25 0)\<lparr>acceleration := 10\<rparr>"
  let ?q = "(Player_ctor3 4 25 0)\<lparr>acceleration := 10\<rparr>"
  have s: "unat (scoreWithoutAcceleration ?p) = 25" and a: "unat (acceleration ?p) = 10"
    by (simp_all add: Player_ctor3_def Player_ctor_def)
  have qs: "scoreWithoutAcceleration ?q = scoreWithoutAcceleration ?p"
    and qa: "acceleration ?q = acceleration ?p"
    by (simp_all add: Player_ctor3_def Player_ctor_def)
  have le: "(25::nat) \<le> MAX_POINTS" "(10::nat) \<le> MAX_POINTS"
    by (simp_all add: MAX_POINTS_def)
  from scoreWithAcceleration_sum_mod [of ?p ?q] qs qa
  have "unat (scoreWithAcceleration ?p) =
          unat (scoreWithoutAcceleration ?p) + unat (acceleration ?p)"
    and "scoreWithAcceleration ?q = scoreWithAcceleration ?p"
    using s a le by simp_all
  then show ?thesis
    using s a le qs qa by simp
qed

text \<open>
  C4, as the specification words it ("returns exactly the sum"), fails where the sum leaves
  the 16 bits of \<^verbatim>\<open>points\<close>: with a score of 65535 and an acceleration of 1 the function
  returns 0.
\<close>

theorem scoreWithAcceleration_exact_counterexample:
  "unat (scoreWithAcceleration ((Player_ctor3 0 65535 0)\<lparr>acceleration := 1\<rparr>)) \<noteq>
     unat (scoreWithoutAcceleration ((Player_ctor3 0 65535 0)\<lparr>acceleration := 1\<rparr>))
       + unat (acceleration ((Player_ctor3 0 65535 0)\<lparr>acceleration := 1\<rparr>))"
  by (simp add: scoreWithAcceleration_def Player_ctor3_def Player_ctor_def)



text \<open>
  C9. The constructor with arguments gives a valid record whose rank index is the id, whose
  unaccelerated score and rating are the ones given and whose acceleration is 0; the
  default constructor gives the record that is not valid.
\<close>

theorem Player_ctor_fields:
  "isValid (Player_ctor i s r ms fp) = True \<and>
   id_Player (Player_ctor i s r ms fp) = i \<and>
   rankIndex (Player_ctor i s r ms fp) = i \<and>
   scoreWithoutAcceleration (Player_ctor i s r ms fp) = s \<and>
   acceleration (Player_ctor i s r ms fp) = 0 \<and>
   rating (Player_ctor i s r ms fp) = r \<and>
   isValid (Player_default i0 k0 r0 s0) = False"
  by (simp add: Player_ctor_def Player_default_def)

subsection \<open>The score type\<close>

text \<open>
  C7, as the code has it. \<^verbatim>\<open>points\<close> is an unsigned 16-bit integer counting tenths of a
  point (a win is worth 10 and a draw 5 unless configured otherwise); \<^verbatim>\<open>maxPoints\<close>, that
  is \<^verbatim>\<open>MAX_POINTS\<close>, is one of its values. The constructor of a player stores whatever
  value of the type it is given; nothing compares it with \<^verbatim>\<open>MAX_POINTS\<close>.
\<close>

theorem points_unsigned_unchecked:
  "unat maxPoints = MAX_POINTS \<and>
   unat (v :: points) < 2 ^ 16 \<and>
   pointsForWin Tournament_default = 10 \<and>
   pointsForDraw Tournament_default = 5 \<and>
   scoreWithoutAcceleration (Player_ctor i v r ms fp) = v"
proof -
  have "unat v < 2 ^ LENGTH(16)"
    by (rule unsigned_less)
  then show ?thesis
    by (simp add: maxPoints_def MAX_POINTS_def Tournament_default_def Player_ctor_def)
qed

text \<open>
  C7, as the specification words it, fails: a score of 1999 tenths, above \<^verbatim>\<open>MAX_POINTS\<close>,
  is taken by the constructor as it is, neither cut down to the bound nor refused.
\<close>

theorem points_bound_counterexample:
  "\<not> unat (scoreWithoutAcceleration (Player_ctor3 0 1999 0)) \<le> MAX_POINTS"
  by (simp add: Player_ctor3_def Player_ctor_def MAX_POINTS_def)

subsection \<open>The rank sequence\<close>

lemma mset_insert_by_rank: "mset (insert_by_rank p ps) = add_mset p (mset ps)"
  by (induction ps) simp_all

lemma mset_sort_by_rank: "mset (sort_by_rank ps) = mset ps"
  by (induction ps) (simp_all add: mset_insert_by_rank)

lemma reassignRank_keeps:
  "isValid (reassignRank ranked p) = isValid p"
  "id_Player (reassignRank ranked p) = id_Player p"
  by (simp_all add: reassignRank_def)

lemma setPlayerData_keeps:
  "isValid (setPlayerData d p) = isValid p"
  "id_Player (setPlayerData d p) = id_Player p"
  by (simp_all add: setPlayerData_def)

lemma forbid_keeps:
  "isValid (forbid a b p) = isValid p"
  "id_Player (forbid a b p) = id_Player p"
  by (simp_all add: forbid_def)

lemma valid_ids_map:
  assumes "\<And>p. isValid (g p) = isValid p" and "\<And>p. id_Player (g p) = id_Player p"
  shows "map id_Player (filter isValid (map g ps)) = map id_Player (filter isValid ps)"
  using assms by (induction ps) simp_all

lemma validIds_updateRanks: "validIds (updateRanks t) = validIds t"
  by (simp add: validIds_def updateRanks_def Let_def valid_ids_map reassignRank_keeps)

lemma playersByRank_updateRanks:
  "playersByRank (updateRanks t) = map id_Player (sort_by_rank (filter isValid (players t)))"
  by (simp add: updateRanks_def Let_def)

lemma updateRanks_establishes: "ranksArePermutation (updateRanks t)"
proof -
  have "mset (playersByRank (updateRanks t)) =
          image_mset id_Player (mset (sort_by_rank (filter isValid (players t))))"
    by (simp add: playersByRank_updateRanks)
  also have "\<dots> = image_mset id_Player (mset (filter isValid (players t)))"
    by (simp only: mset_sort_by_rank)
  also have "\<dots> = mset (validIds t)"
    by (simp add: validIds_def)
  finally show ?thesis
    by (simp add: ranksArePermutation_def validIds_updateRanks)
qed

lemma resolveAll_valid_ids:
  "resolveAll r ps = Inr ps' \<Longrightarrow>
     map id_Player (filter isValid ps') = map id_Player (filter isValid ps)"
proof (induction ps arbitrary: ps')
  case Nil
  then show ?case by simp
next
  case (Cons p ps)
  then show ?case
    by (auto simp: setPlayerData_keeps split: if_splits sum.splits)
qed

lemma resolveAll_length: "resolveAll r ps = Inr ps' \<Longrightarrow> length ps' = length ps"
  by (induction ps arbitrary: ps') (auto split: if_splits sum.splits)

lemma computePlayerData_frame:
  assumes "computePlayerData resolve t = Inr t'"
  shows "validIds t' = validIds t" and "playersByRank t' = playersByRank t"
    and "length (players t') = length (players t)"
  using assms
  by (auto simp: computePlayerData_def validIds_def resolveAll_valid_ids resolveAll_length
      split: sum.splits)

lemma forbidAll_valid_ids:
  "forbidAll prs ps = Inr ps' \<Longrightarrow>
     map id_Player (filter isValid ps') = map id_Player (filter isValid ps)"
proof (induction prs ps arbitrary: ps' rule: forbidAll.induct)
  case (1 ps)
  then show ?case by simp
next
  case (2 a b prs ps)
  from "2.prems" have ok: "\<not> (\<not> validId ps a \<or> \<not> validId ps b)" "a \<noteq> b"
    and run: "forbidAll prs (map (forbid a b) ps) = Inr ps'"
    by (auto split: if_splits)
  from "2.IH" [OF ok run]
  have "map id_Player (filter isValid ps') =
          map id_Player (filter isValid (map (forbid a b) ps))" .
  also have "\<dots> = map id_Player (filter isValid ps)"
    by (rule valid_ids_map) (simp_all add: forbid_keeps)
  finally show ?case .
qed

lemma forbidPairs_frame:
  assumes "forbidPairs t prs = Inr t'"
  shows "validIds t' = validIds t" and "playersByRank t' = playersByRank t"
  using assms
  by (auto simp: forbidPairs_def validIds_def forbidAll_valid_ids split: sum.splits)

lemma ranks_length:
  assumes "ranksArePermutation t"
  shows "length (playersByRank t) \<le> length (players t)"
proof -
  from assms have "length (playersByRank t) = length (validIds t)"
    unfolding ranksArePermutation_def by (rule mset_eq_length)
  also have "\<dots> \<le> length (players t)"
    by (simp add: validIds_def)
  finally show ?thesis .
qed

lemma updateRanks_no_valid:
  assumes "filter isValid (players t) = []"
  shows "playersByRank (updateRanks t) = []"
  using assms by (simp add: playersByRank_updateRanks)

text \<open>
  C8. The rank sequence of a tournament is a permutation of the ids of its valid players:
  this holds of the empty tournament, it holds after \<^verbatim>\<open>updateRanks\<close> from any state, and
  \<^verbatim>\<open>computePlayerData\<close> (with any rules for the derived values) and \<^verbatim>\<open>forbidPairs\<close> keep
  it. A sequence that is such a permutation is no longer than the player collection.
  Without a valid player \<^verbatim>\<open>updateRanks\<close>, which has no failure, gives the empty sequence.
\<close>

theorem playersByRank_invariant:
  "ranksArePermutation Tournament_default \<and>
   ranksArePermutation (updateRanks t) \<and>
   length (playersByRank (updateRanks t)) \<le> length (players (updateRanks t)) \<and>
   (ranksArePermutation t \<longrightarrow>
      (\<forall>t'. computePlayerData resolve t = Inr t' \<longrightarrow> ranksArePermutation t')) \<and>
   (ranksArePermutation t \<longrightarrow>
      (\<forall>t'. forbidPairs t prs = Inr t' \<longrightarrow> ranksArePermutation t')) \<and>
   (ranksArePermutation t \<longrightarrow> length (playersByRank t) \<le> length (players t)) \<and>
   (filter isValid (players t) = [] \<longrightarrow> playersByRank (updateRanks t) = [])"
proof -
  have init: "ranksArePermutation Tournament_default"
    by (simp add: ranksArePermutation_def validIds_def Tournament_default_def)
  have upd: "ranksArePermutation (updateRanks t)"
    by (rule updateRanks_establishes)
  have upd_len: "length (playersByRank (updateRanks t)) \<le> length (players (updateRanks t))"
    using upd by (rule ranks_length)
  have cpd: "ranksArePermutation t'"
    if "ranksArePermutation t" and "computePlayerData resolve t = Inr t'" for t'
    using that by (simp add: ranksArePermutation_def computePlayerData_frame)
  have fp: "ranksArePermutation t'"
    if "ranksArePermutation t" and "forbidPairs t prs = Inr t'" for t'
    using that by (simp add: ranksArePermutation_def forbidPairs_frame)
  have len: "ranksArePermutation t \<longrightarrow> length (playersByRank t) \<le> length (players t)"
    by (simp add: ranks_length)
  have none: "filter isValid (players t) = [] \<longrightarrow> playersByRank (updateRanks t) = []"
    by (simp add: updateRanks_no_valid)
  from init upd upd_len cpd fp len none show ?thesis
    by blast
qed

text \<open>
  The invariant on the small field: resolving the two valid players and forbidding the
  pair (0, 2) both succeed and keep it; a tournament of holes ranks to the empty sequence.
\<close>

theorem playersByRank_invariant_witness:
  "ranksArePermutation exampleField \<and>
   computePlayerData (\<lambda>t p. Inr exampleData) exampleField =
     Inr (exampleField\<lparr>players :=
       [setPlayerData exampleData (Player_ctor3 0 10 1500), Player_default 1 1 0 0,
        setPlayerData exampleData (Player_ctor3 2 15 1400)]\<rparr>) \<and>
   ranksArePermutation (exampleField\<lparr>players :=
       [setPlayerData exampleData (Player_ctor3 0 10 1500), Player_default 1 1 0 0,
        setPlayerData exampleData (Player_ctor3 2 15 1400)]\<rparr>) \<and>
   forbidPairs exampleField [(0, 2)] =
     Inr (exampleField\<lparr>players :=
       [(Player_ctor3 0 10 1500)\<lparr>forbiddenPairs := {2}\<rparr>, Player_default 1 1 0 0,
        (Player_ctor3 2 15 1400)\<lparr>forbiddenPairs := {0}\<rparr>]\<rparr>) \<and>
   ranksArePermutation (exampleField\<lparr>players :=
       [(Player_ctor3 0 10 1500)\<lparr>forbiddenPairs := {2}\<rparr>, Player_default 1 1 0 0,
        (Player_ctor3 2 15 1400)\<lparr>forbiddenPairs := {0}\<rparr>]\<rparr>) \<and>
   length (playersByRank exampleField) \<le> length (players exampleField) \<and>
   ranksArePermutation (updateRanks exampleField) \<and>
   filter isValid (players exampleHoles) = [] \<and>
   playersByRank (updateRanks exampleHoles) = []"
proof -
  let ?t1 = "exampleField\<lparr>players :=
       [setPlayerData exampleData (Player_ctor3 0 10 1500), Player_default 1 1 0 0,
        setPlayerData exampleData (Player_ctor3 2 15 1400)]\<rparr>"
  let ?t2 = "exampleField\<lparr>players :=
       [(Player_ctor3 0 10 1500)\<lparr>forbiddenPairs := {2}\<rparr>, Player_default 1 1 0 0,
        (Player_ctor3 2 15 1400)\<lparr>forbiddenPairs := {0}\<rparr>]\<rparr>"
  have inv: "ranksArePermutation exampleField"
    by (simp add: ranksArePermutation_def validIds_def exampleField_def Tournament_default_def
        Player_ctor3_def Player_ctor_def Player_default_def)
  have run1: "computePlayerData (\<lambda>t p. Inr exampleData) exampleField = Inr ?t1"
    by (simp add: computePlayerData_def exampleField_def Tournament_default_def
        Player_ctor3_def Player_ctor_def Player_default_def)
  have run2: "forbidPairs exampleField [(0, 2)] = Inr ?t2"
    by (simp add: forbidPairs_def validId_def forbid_def exampleField_def
        Tournament_default_def Player_ctor3_def Player_ctor_def Player_default_def)
  have holes: "filter isValid (players exampleHoles) = []"
    by (simp add: exampleHoles_def Tournament_default_def Player_default_def)
  note field = playersByRank_invariant [of exampleField "\<lambda>t p. Inr exampleData" "[(0, 2)]"]
  note empty = playersByRank_invariant [of exampleHoles "\<lambda>t p. Inr exampleData" "[]"]
  from field inv run1 have r1: "ranksArePermutation ?t1"
    by blast
  from field inv run2 have r2: "ranksArePermutation ?t2"
    by blast
  from field inv have len: "length (playersByRank exampleField) \<le> length (players exampleField)"
    by blast
  from field have upd: "ranksArePermutation (updateRanks exampleField)"
    by blast
  from empty holes have none: "playersByRank (updateRanks exampleHoles) = []"
    by blast
  from inv run1 r1 run2 r2 len upd holes none show ?thesis
    by blast
qed

end
